theory Spec2Isabelle
  imports Main
begin

section \<open>Python values used by app.py\<close>

text \<open>
  A Python \<open>str\<close> is a sequence of Unicode code points; \<open>len\<close>, \<open>find\<close>, \<open>rfind\<close>
  and slicing count code points. The model therefore takes a text to be the list of its
  code points. \<open>ustr\<close> turns an ASCII literal into such a text.
\<close>

type_synonym pystr = "nat list"

definition ustr :: "string \<Rightarrow> pystr" where
  "ustr s = map of_char s"

definition LBRACE :: nat where "LBRACE = 123"
definition RBRACE :: nat where "RBRACE = 125"

text \<open>
  \<open>str.isspace\<close> for one code point: the code points CPython lists as whitespace
  (bidirectional type WS, B or S, or category Zs).
\<close>

definition isspace :: "nat \<Rightarrow> bool" where
  "isspace c \<longleftrightarrow>
     (9 \<le> c \<and> c \<le> 13) \<or> (28 \<le> c \<and> c \<le> 32) \<or> c = 133 \<or> c = 160 \<or> c = 5760 \<or>
     (8192 \<le> c \<and> c \<le> 8202) \<or> c = 8232 \<or> c = 8233 \<or> c = 8239 \<or> c = 8287 \<or>
     c = 12288"

text \<open>\<open>text.strip()\<close>: drop the leading and the trailing whitespace.\<close>

definition strip :: "pystr \<Rightarrow> pystr" where
  "strip t = rev (dropWhile isspace (rev (dropWhile isspace t)))"

text \<open>
  \<open>text.find(c)\<close> for a one-character needle: the lowest index, or \<open>-1\<close>.
  \<open>text.rfind(c)\<close>: the highest index, or \<open>-1\<close>.
\<close>

fun py_find :: "nat \<Rightarrow> pystr \<Rightarrow> int" where
  "py_find c [] = -1"
| "py_find c (x # xs) =
     (if x = c then 0
      else (let r = py_find c xs in if r = -1 then -1 else r + 1))"

definition py_rfind :: "nat \<Rightarrow> pystr \<Rightarrow> int" where
  "py_rfind c t =
     (let r = py_find c (rev t) in if r = -1 then -1 else int (length t) - 1 - r)"

text \<open>
  \<open>text[i:j]\<close> with Python's rules: a negative bound counts from the end, both bounds
  are clamped to \<open>0 .. len\<close>, and the slice is empty when the upper bound does not
  exceed the lower one.
\<close>

definition py_slice :: "'a list \<Rightarrow> int \<Rightarrow> int \<Rightarrow> 'a list" where
  "py_slice t i j =
     (let n = int (length t);
          lo = max 0 (min n (if i < 0 then i + n else i));
          hi = max 0 (min n (if j < 0 then j + n else j))
      in take (nat (hi - lo)) (drop (nat lo) t))"

text \<open>
  The values \<open>json.loads\<close> returns. A \<open>dict\<close> keeps its keys in insertion order, so an
  object is an association list. A number with a fraction or an exponent becomes a
  Python \<open>float\<close>, as do \<open>NaN\<close>, \<open>Infinity\<close> and \<open>-Infinity\<close>; the model keeps the literal.
\<close>

datatype json =
    JNull
  | JBool bool
  | JInt int
  | JFloat pystr
  | JString pystr
  | JArray "json list"
  | JObject "(pystr \<times> json) list"

text \<open>What \<open>json.JSONDecodeError(msg, doc, pos)\<close> carries.\<close>

record json_error =
  msg :: pystr
  doc :: pystr
  pos :: nat

text \<open>
  The exceptions that travel through the code, as values. All of them are subclasses of
  \<open>Exception\<close>. A \<open>NameError\<close> carries the name that is not bound; \<open>APIError\<close> stands
  for whatever the client library raises (network, authentication, rate limit); the
  others carry their message.
\<close>

datatype exn =
    ValueError pystr
  | JSONDecodeError json_error
  | TypeError pystr
  | NameError pystr
  | AttributeError pystr
  | IndexError pystr
  | APIError pystr

text \<open>\<open>str(n)\<close> for a natural number, and \<open>str(e)\<close> for an exception.\<close>

fun str_nat :: "nat \<Rightarrow> pystr" where
  "str_nat n = (if n < 10 then [48 + n] else str_nat (n div 10) @ [48 + n mod 10])"

definition jde_str :: "json_error \<Rightarrow> pystr" where
  "jde_str e =
     (let passed = take (pos e) (doc e);
          lineno = length (filter (\<lambda>c. c = 10) passed) + 1;
          colno = length (takeWhile (\<lambda>c. c \<noteq> 10) (rev passed)) + 1
      in msg e @ ustr '': line '' @ str_nat lineno @ ustr '' column '' @ str_nat colno
         @ ustr '' (char '' @ str_nat (pos e) @ ustr '')'')"

fun py_str :: "exn \<Rightarrow> pystr" where
  "py_str (ValueError m) = m"
| "py_str (JSONDecodeError e) = jde_str e"
| "py_str (TypeError m) = m"
| "py_str (NameError n) = ustr ''name '' @ [39] @ n @ [39] @ ustr '' is not defined''"
| "py_str (AttributeError m) = m"
| "py_str (IndexError m) = m"
| "py_str (APIError m) = m"

text \<open>
  The calls made on the \<open>st\<close> module that report something, in the order they happen.
  \<open>st.code(None)\<close> is \<open>StCode None\<close>.
\<close>

datatype ui_call =
    StError pystr
  | StWarning pystr
  | StInfo pystr
  | StCode "pystr option"
  | StRerun

section \<open>json.loads\<close>

text \<open>
  The decoder of the standard library, as CPython 3.11 runs it with its default
  arguments: the JSON grammar, plus \<open>NaN\<close>, \<open>Infinity\<close> and \<open>-Infinity\<close>; control characters
  are refused inside strings; a repeated key keeps its first place and its last value.
  The functions work on the rest of the document. An error is a message with the number
  of characters left at the place of the error, from which \<open>json_loads\<close> computes the
  position. The interpreter's limits (recursion depth, digits of an integer) are not part
  of the model.
\<close>

type_synonym perr = "pystr \<times> nat"

definition json_ws :: "nat \<Rightarrow> bool" where
  "json_ws c \<longleftrightarrow> c = 32 \<or> c = 9 \<or> c = 10 \<or> c = 13"

definition skip_ws :: "pystr \<Rightarrow> pystr" where
  "skip_ws s = dropWhile json_ws s"

definition is_digit :: "nat \<Rightarrow> bool" where
  "is_digit c \<longleftrightarrow> 48 \<le> c \<and> c \<le> 57"

definition hexval :: "nat \<Rightarrow> nat option" where
  "hexval c =
     (if 48 \<le> c \<and> c \<le> 57 then Some (c - 48)
      else if 97 \<le> c \<and> c \<le> 102 then Some (c - 87)
      else if 65 \<le> c \<and> c \<le> 70 then Some (c - 55)
      else None)"

fun hex4 :: "pystr \<Rightarrow> nat option" where
  "hex4 (a # b # c # d # r) =
     (case (hexval a, hexval b, hexval c, hexval d) of
        (Some x, Some y, Some z, Some w) \<Rightarrow> Some (((x * 16 + y) * 16 + z) * 16 + w)
      | _ \<Rightarrow> None)"
| "hex4 _ = None"

definition unescape :: "nat \<Rightarrow> nat option" where
  "unescape e =
     (if e = 34 \<or> e = 92 \<or> e = 47 then Some e
      else if e = 98 then Some 8
      else if e = 102 then Some 12
      else if e = 110 then Some 10
      else if e = 114 then Some 13
      else if e = 116 then Some 9
      else None)"

text \<open>
  \<open>scanstring opening acc s\<close>: \<open>s\<close> is what follows the opening quote, \<open>opening\<close> the
  document from that quote on, \<open>acc\<close> the decoded characters so far, last first.
\<close>

function scanstring :: "pystr \<Rightarrow> pystr \<Rightarrow> pystr \<Rightarrow> perr + (pystr \<times> pystr)" where
  "scanstring opening acc [] = Inl (ustr ''Unterminated string starting at'', length opening)"
| "scanstring opening acc (c # cs) =
     (if c = 34 then Inr (rev acc, cs)
      else if c = 92 then
        (case cs of
           [] \<Rightarrow> Inl (ustr ''Unterminated string starting at'', length opening)
         | e # cs' \<Rightarrow>
             if e \<noteq> 117 then
               (case unescape e of
                  None \<Rightarrow> Inl (ustr ''Invalid '' @ [92] @ ustr ''escape'', length (c # cs))
                | Some ch \<Rightarrow> scanstring opening (ch # acc) cs')
             else if length cs' \<le> 4 then Inl (ustr ''Invalid '' @ [92] @ ustr ''uXXXX escape'', length cs)
             else
               (case hex4 cs' of
                  None \<Rightarrow> Inl (ustr ''Invalid '' @ [92] @ ustr ''uXXXX escape'', length cs)
                | Some u \<Rightarrow>
                    let rest = drop 4 cs' in
                    if 55296 \<le> u \<and> u \<le> 56319 \<and> 6 < length rest \<and> take 2 rest = [92, 117] then
                      (case hex4 (drop 2 rest) of
                         None \<Rightarrow> Inl (ustr ''Invalid '' @ [92] @ ustr ''uXXXX escape'', length rest - 1)
                       | Some u2 \<Rightarrow>
                           if 56320 \<le> u2 \<and> u2 \<le> 57343
                           then scanstring opening
                                  ((65536 + ((u - 55296) * 1024 + (u2 - 56320))) # acc)
                                  (drop 6 rest)
                           else scanstring opening (u # acc) rest)
                    else scanstring opening (u # acc) rest))
      else if c \<le> 31 then Inl (ustr ''Invalid control character at'', length (c # cs))
      else scanstring opening (c # acc) cs)"
  by pat_completeness auto
termination
  by (relation "measure (\<lambda>(b, a, s). length s)") auto


text \<open>\<open>dict[key] = value\<close>: a new key goes last, a known key keeps its place.\<close>

fun dict_set :: "('k \<times> 'v) list \<Rightarrow> 'k \<Rightarrow> 'v \<Rightarrow> ('k \<times> 'v) list" where
  "dict_set [] k v = [(k, v)]"
| "dict_set ((k', v') # kvs) k v =
     (if k' = k then (k', v) # kvs else (k', v') # dict_set kvs k v)"

text \<open>
  A number: an optional minus, \<open>0\<close> or a digit \<open>1\<close> to \<open>9\<close> followed by digits, then an optional
  fraction (a point and at least one digit), then an optional exponent (\<open>e\<close> or \<open>E\<close>, an
  optional sign, at least one digit). Without fraction and exponent it is an \<open>int\<close>.
\<close>

definition digits_value :: "pystr \<Rightarrow> nat" where
  "digits_value ds = foldl (\<lambda>n d. 10 * n + (d - 48)) 0 ds"

definition match_number :: "pystr \<Rightarrow> (json \<times> pystr) option" where
  "match_number s =
     (let neg = (take 1 s = [45]);
          s1 = (if neg then drop 1 s else s)
      in case s1 of
           [] \<Rightarrow> None
         | d # r \<Rightarrow>
             if \<not> is_digit d then None
             else
               let integer = (if d = 48 then [d] else d # takeWhile is_digit r);
                   s2 = (if d = 48 then r else dropWhile is_digit r);
                   has_frac = (case s2 of p # f # _ \<Rightarrow> p = 46 \<and> is_digit f | _ \<Rightarrow> False);
                   frac = (if has_frac then 46 # takeWhile is_digit (drop 1 s2) else []);
                   s3 = (if has_frac then dropWhile is_digit (drop 1 s2) else s2);
                   has_e = (case s3 of e # _ \<Rightarrow> e = 101 \<or> e = 69 | _ \<Rightarrow> False);
                   s4 = drop 1 s3;
                   has_sign = (case s4 of g # _ # _ \<Rightarrow> g = 45 \<or> g = 43 | _ \<Rightarrow> False);
                   s5 = (if has_sign then drop 1 s4 else s4);
                   edigits = takeWhile is_digit s5;
                   has_exp = (has_e \<and> edigits \<noteq> []);
                   exp = (if has_exp then take 1 s3 @ (if has_sign then take 1 s4 else []) @ edigits
                          else []);
                   s6 = (if has_exp then dropWhile is_digit s5 else s3)
               in if has_frac \<or> has_exp
                  then Some (JFloat ((if neg then [45] else []) @ integer @ frac @ exp), s6)
                  else Some (JInt (if neg then - int (digits_value integer)
                                   else int (digits_value integer)), s6))"

text \<open>
  \<open>scan_once\<close> reads one value; \<open>parse_object\<close> reads the members of an object from the place
  where a key is due, \<open>parse_array\<close> the elements of an array from the place where a value
  is due. The two loops go on after a comma only if the rest has become shorter: it
  always has (lemmas \<open>scan_once_shorter\<close>), and this is what makes the recursion
  well-founded.
\<close>

function scan_once :: "pystr \<Rightarrow> perr + (json \<times> pystr)"
  and parse_object :: "(pystr \<times> json) list \<Rightarrow> pystr \<Rightarrow> perr + (json \<times> pystr)"
  and parse_array :: "json list \<Rightarrow> pystr \<Rightarrow> perr + (json \<times> pystr)" where
  "scan_once s =
     (case s of
        [] \<Rightarrow> Inl (ustr ''Expecting value'', 0)
      | c # cs \<Rightarrow>
          if c = 34 then
            (case scanstring s [] cs of
               Inl e \<Rightarrow> Inl e
             | Inr (str, r) \<Rightarrow> Inr (JString str, r))
          else if c = 123 then
            (case skip_ws cs of
               [] \<Rightarrow> parse_object [] []
             | x # r \<Rightarrow> if x = 125 then Inr (JObject [], r) else parse_object [] (x # r))
          else if c = 91 then
            (case skip_ws cs of
               [] \<Rightarrow> parse_array [] []
             | x # r \<Rightarrow> if x = 93 then Inr (JArray [], r) else parse_array [] (x # r))
          else if take 4 s = ustr ''null'' then Inr (JNull, drop 4 s)
          else if take 4 s = ustr ''true'' then Inr (JBool True, drop 4 s)
          else if take 5 s = ustr ''false'' then Inr (JBool False, drop 5 s)
          else if take 3 s = ustr ''NaN'' then Inr (JFloat (ustr ''NaN''), drop 3 s)
          else if take 8 s = ustr ''Infinity'' then Inr (JFloat (ustr ''Infinity''), drop 8 s)
          else if take 9 s = ustr ''-Infinity'' then Inr (JFloat (ustr ''-Infinity''), drop 9 s)
          else
            (case match_number s of
               None \<Rightarrow> Inl (ustr ''Expecting value'', length s)
             | Some (v, r) \<Rightarrow> Inr (v, r)))"
| "parse_object acc s =
     (case s of
        [] \<Rightarrow> Inl (ustr ''Expecting property name enclosed in double quotes'', 0)
      | q # cs \<Rightarrow>
          if q \<noteq> 34
          then Inl (ustr ''Expecting property name enclosed in double quotes'', length s)
          else
            (case scanstring s [] cs of
               Inl e \<Rightarrow> Inl e
             | Inr (key, r1) \<Rightarrow>
                 (case skip_ws r1 of
                    [] \<Rightarrow> Inl (ustr ''Expecting '' @ [39, 58, 39] @ ustr '' delimiter'', 0)
                  | c # r2 \<Rightarrow>
                      if c \<noteq> 58
                      then Inl (ustr ''Expecting '' @ [39, 58, 39] @ ustr '' delimiter'',
                                length (c # r2))
                      else
                        (case scan_once (skip_ws r2) of
                           Inl e \<Rightarrow> Inl e
                         | Inr (v, r3) \<Rightarrow>
                             (case skip_ws r3 of
                                [] \<Rightarrow> Inl (ustr ''Expecting '' @ [39, 44, 39] @ ustr '' delimiter'', 0)
                              | d # r4 \<Rightarrow>
                                  if d = 125 then Inr (JObject (dict_set acc key v), r4)
                                  else if d \<noteq> 44
                                  then Inl (ustr ''Expecting '' @ [39, 44, 39] @ ustr '' delimiter'',
                                            length (d # r4))
                                  else if length r4 < length s
                                  then parse_object (dict_set acc key v) (skip_ws r4)
                                  else Inl ([], 0))))))"
| "parse_array acc s =
     (case scan_once s of
        Inl e \<Rightarrow> Inl e
      | Inr (v, r1) \<Rightarrow>
          (case skip_ws r1 of
             [] \<Rightarrow> Inl (ustr ''Expecting '' @ [39, 44, 39] @ ustr '' delimiter'', 0)
           | d # r2 \<Rightarrow>
               if d = 93 then Inr (JArray (acc @ [v]), r2)
               else if d \<noteq> 44
               then Inl (ustr ''Expecting '' @ [39, 44, 39] @ ustr '' delimiter'', length (d # r2))
               else if length r2 < length s
               then parse_array (acc @ [v]) (skip_ws r2)
               else Inl ([], 0)))"
  by pat_completeness auto

termination
proof -
  have skip: "\<And>s. length (skip_ws s) \<le> length s"
    by (simp add: skip_ws_def length_dropWhile_le)
  have shorter: "\<And>b acc s k r. scanstring b acc s = Inr (k, r) \<Longrightarrow> length r < length s"
  proof -
    fix b acc s k r
    show "scanstring b acc s = Inr (k, r) \<Longrightarrow> length r < length s"
    proof (induction b acc s rule: scanstring.induct)
      case (1 b acc)
      then show ?case by simp
    next
      case (2 b acc c cs)
      show ?case
        using "2.prems" "2.IH"
        apply (auto simp: Let_def split: if_splits list.splits option.splits)
        apply fastforce+
        done
    qed
  qed
  show ?thesis
  proof (relation "measure (\<lambda>x. case x of
            Inl s \<Rightarrow> 2 * length s
          | Inr (Inl (acc, s)) \<Rightarrow> 2 * length s + 1
          | Inr (Inr (acc, s)) \<Rightarrow> 2 * length s + 1)", goal_cases)
    case 1
    show ?case by simp
  next
    case (2 s c cs)
    then show ?case by simp
  next
    case (3 s c cs x r)
    then show ?case
      using skip [of cs] by simp
  next
    case (4 s c cs)
    then show ?case by simp
  next
    case (5 s c cs x r)
    then show ?case
      using skip [of cs] by simp
  next
    case (6 acc s q cs x2 key r1 c r2)
    then show ?case
      using skip [of r1] skip [of r2] shorter [of s "[]" cs key r1]
      by simp
  next
    case (7 acc s q cs x2 key r1 c r2 x2a v r3 d r4)
    then show ?case
      using skip [of r4] by simp
  next
    case (8 acc s)
    then show ?case by simp
  next
    case (9 acc s x2 v r1 d r2)
    then show ?case
      using skip [of r2] by simp
  qed
qed

definition json_loads :: "pystr \<Rightarrow> exn + json" where
  "json_loads s =
     (if take 1 s = [65279]
      then Inl (JSONDecodeError
             \<lparr>msg = ustr ''Unexpected UTF-8 BOM (decode using utf-8-sig)'', doc = s, pos = 0\<rparr>)
      else
        (case scan_once (skip_ws s) of
           Inl (m, left) \<Rightarrow> Inl (JSONDecodeError \<lparr>msg = m, doc = s, pos = length s - left\<rparr>)
         | Inr (v, r) \<Rightarrow>
             (case skip_ws r of
                [] \<Rightarrow> Inr v
              | x # r' \<Rightarrow>
                  Inl (JSONDecodeError
                    \<lparr>msg = ustr ''Extra data'', doc = s, pos = length s - length (x # r')\<rparr>))))"

section \<open>extract_json_from_response\<close>

text \<open>
  \<open>key in data\<close>: membership among the keys of a dict, among the elements of a list,
  as a substring of a str; a TypeError for a value that is no container.
\<close>

fun py_substring :: "pystr \<Rightarrow> pystr \<Rightarrow> bool" where
  "py_substring k [] = (k = [])"
| "py_substring k (x # xs) = (take (length k) (x # xs) = k \<or> py_substring k xs)"

fun py_typename :: "json \<Rightarrow> string" where
  "py_typename JNull = ''NoneType''"
| "py_typename (JBool b) = ''bool''"
| "py_typename (JInt i) = ''int''"
| "py_typename (JFloat f) = ''float''"
| "py_typename (JString s) = ''str''"
| "py_typename (JArray xs) = ''list''"
| "py_typename (JObject kvs) = ''dict''"

fun py_in :: "pystr \<Rightarrow> json \<Rightarrow> exn + bool" where
  "py_in k (JObject kvs) = Inr (k \<in> set (map fst kvs))"
| "py_in k (JArray xs) = Inr (JString k \<in> set xs)"
| "py_in k (JString s) = Inr (py_substring k s)"
| "py_in k v =
     Inl (TypeError (ustr ''argument of type '' @ [39] @ ustr (py_typename v) @ [39]
                     @ ustr '' is not iterable''))"

text \<open>\<open>all(key in data for key in keys)\<close>: stops at the first key that is absent.\<close>

fun py_all_in :: "pystr list \<Rightarrow> json \<Rightarrow> exn + bool" where
  "py_all_in [] d = Inr True"
| "py_all_in (k # ks) d =
     (case py_in k d of
        Inl e \<Rightarrow> Inl e
      | Inr b \<Rightarrow> if b then py_all_in ks d else Inr False)"

definition required_keys :: "pystr list" where
  "required_keys =
     [ustr ''title'', ustr ''category'', ustr ''concept'', ustr ''exercise'',
      ustr ''practicalApplication'', ustr ''reflection'']"

text \<open>
  Lines 92 to 105, the \<open>try\<close> block: parse \<open>json_str\<close>, check the keys. Only a
  \<open>JSONDecodeError\<close> is caught there: it is shown together with the text that failed to
  parse, and raised again. Any other exception leaves the block as it is. The decoder is
  the parameter \<open>loads\<close>; the program runs with \<open>json_loads\<close>.
\<close>

definition parse_and_validate ::
  "(pystr \<Rightarrow> exn + json) \<Rightarrow> pystr \<Rightarrow> (exn + json) \<times> ui_call list" where
  "parse_and_validate loads json_str =
     (case loads json_str of
        Inl (JSONDecodeError e) \<Rightarrow>
          (Inl (JSONDecodeError e),
           [StError (ustr ''Failed to parse JSON response''), StCode (Some json_str)])
      | Inl e \<Rightarrow> (Inl e, [])
      | Inr data \<Rightarrow>
          (case py_all_in required_keys data of
             Inl e \<Rightarrow> (Inl e, [])
           | Inr ok \<Rightarrow>
               if \<not> ok
               then (Inl (ValueError (ustr ''Missing required keys in lesson content'')), [])
               else (Inr data, [])))"

definition extract_json_from_response ::
  "(pystr \<Rightarrow> exn + json) \<Rightarrow> pystr \<Rightarrow> (exn + json) \<times> ui_call list" where
  "extract_json_from_response loads text0 =
     (let text = strip text0;
          start = py_find LBRACE text;
          end = py_rfind RBRACE text
      in if start = -1 \<or> end = -1
         then (Inl (ValueError (ustr ''No valid JSON structure found in response'')), [])
         else parse_and_validate loads (py_slice text start (end + 1)))"

subsection \<open>The extraction as the specification words it\<close>

text \<open>
  The specification speaks of the index of the first \<open>{\<close>, the index of the last \<open>}\<close> and
  the substring from the one to the other inclusive. These definitions follow its words,
  not the code: the positions at which a character occurs, the first and the last of
  them, and the characters at the positions \<open>i\<close> to \<open>j\<close>.
\<close>

definition spec_occurrences :: "nat \<Rightarrow> pystr \<Rightarrow> nat list" where
  "spec_occurrences c t = filter (\<lambda>i. t ! i = c) [0..<length t]"

definition spec_first_index :: "nat \<Rightarrow> pystr \<Rightarrow> nat option" where
  "spec_first_index c t = (case spec_occurrences c t of [] \<Rightarrow> None | i # _ \<Rightarrow> Some i)"

definition spec_last_index :: "nat \<Rightarrow> pystr \<Rightarrow> nat option" where
  "spec_last_index c t = (case rev (spec_occurrences c t) of [] \<Rightarrow> None | j # _ \<Rightarrow> Some j)"

definition spec_braced_substring :: "pystr \<Rightarrow> pystr option" where
  "spec_braced_substring raw =
     (let t = strip raw
      in case (spec_first_index LBRACE t, spec_last_index RBRACE t) of
           (Some i, Some j) \<Rightarrow> Some (map ((!) t) [i..<Suc j])
         | _ \<Rightarrow> None)"

section \<open>generate_lesson\<close>

text \<open>
  What the function meets outside itself: the names bound in the module, the decoder, and
  the completion service. A request is determined by the call that makes it and by the
  values its prompts interpolate (the prompt texts, the model name, the temperature and
  the token limit are constants of the source). A completion is the list of its choices,
  each with the content of its message, which may be \<open>None\<close>.
\<close>

datatype request =
    TopicRequest pystr
  | LessonRequest pystr pystr

type_synonym completion = "pystr option list"

record env =
  globals :: "string list"
  decoder :: "pystr \<Rightarrow> exn + json"
  api :: "pystr \<Rightarrow> request \<Rightarrow> exn + completion"

text \<open>
  The names app.py binds at module level: its imports (lines 1 to 6), its two constants
  and its functions. Line 2 is \<open>from groq import Groq\<close>, which binds \<open>Groq\<close> and not
  \<open>groq\<close>; no builtin is called \<open>groq\<close> either.
\<close>

definition module_globals :: "string list" where
  "module_globals =
     [''st'', ''Groq'', ''json'', ''datetime'', ''random'', ''time'',
      ''CATEGORIES'', ''LESSON_SYSTEM_PROMPT'', ''LESSON_TEMPLATE'',
      ''initialize_session_state'', ''extract_json_from_response'', ''generate_lesson'',
      ''display_lesson'', ''main'']"

definition app_env :: "(pystr \<Rightarrow> request \<Rightarrow> exn + completion) \<Rightarrow> env" where
  "app_env service = \<lparr>globals = module_globals, decoder = json_loads, api = service\<rparr>"

text \<open>\<open>completion.choices[0].message.content\<close>.\<close>

definition first_content :: "completion \<Rightarrow> exn + pystr option" where
  "first_content choices =
     (case choices of
        [] \<Rightarrow> Inl (IndexError (ustr ''list index out of range''))
      | c # _ \<Rightarrow> Inr c)"

definition none_has_no_strip :: exn where
  "none_has_no_strip =
     AttributeError ([39] @ ustr ''NoneType'' @ [39] @ ustr '' object has no attribute ''
                     @ [39] @ ustr ''strip'' @ [39])"

text \<open>
  Lines 110 to 148, the body of the \<open>try\<close>. The result is what the body returns or the
  exception that leaves it, the calls made on \<open>st\<close>, and the local \<open>response_text\<close>:
  \<open>None\<close> while line 146 has not bound it.
\<close>

definition generate_lesson_try ::
  "env \<Rightarrow> pystr \<Rightarrow> pystr \<Rightarrow> (exn + json) \<times> ui_call list \<times> pystr option option" where
  "generate_lesson_try w category api_key =
     (if ''groq'' \<notin> set (globals w) then (Inl (NameError (ustr ''groq'')), [], None)
      else
        (case api w api_key (TopicRequest category) of
           Inl e \<Rightarrow> (Inl e, [], None)
         | Inr topic_completion \<Rightarrow>
             (case first_content topic_completion of
                Inl e \<Rightarrow> (Inl e, [], None)
              | Inr None \<Rightarrow> (Inl none_has_no_strip, [], None)
              | Inr (Some content) \<Rightarrow>
                  let topic = strip content;
                      shown = [StInfo (ustr ''Generating lesson about: '' @ topic)]
                  in (case api w api_key (LessonRequest category topic) of
                        Inl e \<Rightarrow> (Inl e, shown, None)
                      | Inr lesson_completion \<Rightarrow>
                          (case first_content lesson_completion of
                             Inl e \<Rightarrow> (Inl e, shown, None)
                           | Inr None \<Rightarrow> (Inl none_has_no_strip, shown, Some None)
                           | Inr (Some response_text) \<Rightarrow>
                               (case extract_json_from_response (decoder w) response_text of
                                  (r, extra) \<Rightarrow> (r, shown @ extra, Some (Some response_text))))))))"

text \<open>
  Lines 150 to 154, the handler: every exception of the body is reported with its text
  and with the response, if one was received, and the function returns \<open>None\<close>.
\<close>

definition generate_lesson :: "env \<Rightarrow> pystr \<Rightarrow> pystr \<Rightarrow> json option \<times> ui_call list" where
  "generate_lesson w category api_key =
     (case generate_lesson_try w category api_key of
        (Inr lesson, shown, response) \<Rightarrow> (Some lesson, shown)
      | (Inl e, shown, response) \<Rightarrow>
          (None,
           shown @
           [StError (ustr ''Error details: '' @ py_str e),
            StError (ustr ''Response received:''),
            StCode (case response of
                      None \<Rightarrow> Some (ustr ''No response received'')
                    | Some r \<Rightarrow> r)]))"

section \<open>main\<close>

text \<open>
  \<open>st.session_state\<close> is a dictionary from names to values: a str, \<open>None\<close>, an int or a
  lesson.
\<close>

datatype sval = SNone | SStr pystr | SInt int | SLesson json

type_synonym session_state = "string \<rightharpoonup> sval"

definition initialize_session_state :: "session_state \<Rightarrow> session_state" where
  "initialize_session_state s =
     (let s1 = (if s ''api_key'' = None then s(''api_key'' \<mapsto> SStr []) else s);
          s2 = (if s1 ''current_lesson'' = None then s1(''current_lesson'' \<mapsto> SNone) else s1);
          s3 = (if s2 ''selected_answer'' = None then s2(''selected_answer'' \<mapsto> SNone) else s2)
      in if s3 ''reflection_text'' = None then s3(''reflection_text'' \<mapsto> SStr []) else s3)"

text \<open>
  \<open>bool(x)\<close> for a decoded value, as \<open>if lesson:\<close> reads it. A float is false when it is
  zero: its literal denotes \<open>m * 10 ^ e\<close>, which the correctly rounded conversion takes
  to zero exactly when it is at most \<open>2 ^ -1075\<close>.
\<close>

definition float_literal_nonzero :: "pystr \<Rightarrow> bool" where
  "float_literal_nonzero lit =
     (let body = (if take 1 lit = [45] then drop 1 lit else lit)
      in if \<not> list_ex is_digit (take 1 body) then True
         else
           let mant = takeWhile (\<lambda>c. c \<noteq> 101 \<and> c \<noteq> 69) body;
               ex = drop 1 (dropWhile (\<lambda>c. c \<noteq> 101 \<and> c \<noteq> 69) body);
               ipart = takeWhile is_digit mant;
               fpart = drop 1 (dropWhile is_digit mant);
               m = digits_value (ipart @ fpart);
               edigits = (if take 1 ex = [45] \<or> take 1 ex = [43] then drop 1 ex else ex);
               e = (if take 1 ex = [45] then - int (digits_value edigits)
                    else int (digits_value edigits)) - int (length fpart)
           in if 0 \<le> e then m \<noteq> 0 else 10 ^ nat (- e) < m * 2 ^ 1075)"

fun truthy :: "json \<Rightarrow> bool" where
  "truthy JNull = False"
| "truthy (JBool b) = b"
| "truthy (JInt i) = (i \<noteq> 0)"
| "truthy (JFloat lit) = float_literal_nonzero lit"
| "truthy (JString s) = (s \<noteq> [])"
| "truthy (JArray xs) = (xs \<noteq> [])"
| "truthy (JObject kvs) = (kvs \<noteq> [])"

definition CATEGORIES_keys :: "pystr list" where
  "CATEGORIES_keys =
     [ustr ''science'', ustr ''technology'', ustr ''psychology'', ustr ''history'']"

text \<open>
  What one run of the script receives from the page: the text of the key field, the
  choice of the radio, whether the Generate button was pressed, and the draw of
  \<open>random.choice\<close>.
\<close>

record widgets =
  key_input :: pystr
  selected_category :: pystr
  generate_clicked :: bool
  random_draw :: nat

text \<open>Line 256: the category of the lesson.\<close>

definition chosen_category :: "widgets \<Rightarrow> pystr" where
  "chosen_category inp =
     (if selected_category inp = ustr ''random''
      then CATEGORIES_keys ! (random_draw inp mod length CATEGORIES_keys)
      else selected_category inp)"

text \<open>
  Lines 223 to 267 of \<open>main\<close>: the session state is initialised, the key is stored, and
  a press of the button generates a lesson. \<open>st.rerun()\<close> ends the run (by an exception
  that is no \<open>Exception\<close>), after the three assignments. \<open>generate_lesson\<close> returns
  in every case, so the handler of line 265 has nothing to catch. The rendering that
  follows line 267 is not part of the model.
\<close>

definition main :: "env \<Rightarrow> widgets \<Rightarrow> session_state \<Rightarrow> session_state \<times> ui_call list" where
  "main w inp s0 =
     (let s1 = initialize_session_state s0;
          api_key = key_input inp;
          warned =
            (if api_key \<noteq> [] \<and> take 4 api_key \<noteq> ustr ''gsk_''
             then [StWarning ([9888, 65039] @ ustr '' API key should start with '' @ [39]
                              @ ustr ''gsk_'' @ [39] @ ustr ''. Please check your key.'')]
             else []);
          s2 = (if api_key \<noteq> [] then s1(''api_key'' \<mapsto> SStr api_key) else s1)
      in if \<not> generate_clicked inp then (s2, warned)
         else if api_key = []
         then (s2, warned @ [StError (ustr ''Please enter your Groq API key first!'')])
         else
           (case generate_lesson w (chosen_category inp) api_key of
              (None, shown) \<Rightarrow> (s2, warned @ shown)
            | (Some lesson, shown) \<Rightarrow>
                if truthy lesson
                then (s2(''current_lesson'' \<mapsto> SLesson lesson,
                         ''selected_answer'' \<mapsto> SNone,
                         ''reflection_text'' \<mapsto> SStr []),
                      warned @ shown @ [StRerun])
                else (s2, warned @ shown)))"

section \<open>Example texts\<close>

text \<open>\<open>dq s\<close> is the text \<open>s\<close> between double quotes.\<close>

definition dq :: "string \<Rightarrow> pystr" where
  "dq s = [34] @ ustr s @ [34]"

text \<open>
  A response with the six keys whose exercise has two options and the answer index 7:
  \<^verbatim>\<open>{"title":"T","category":"c","concept":{},"exercise":{"options":["a","b"],"correctAnswer":7},"practicalApplication":{},"reflection":{}}\<close>
\<close>

definition example_lesson_text :: pystr where
  "example_lesson_text =
     [123] @ dq ''title'' @ [58] @ dq ''T'' @ [44] @ dq ''category'' @ [58] @ dq ''c'' @ [44]
     @ dq ''concept'' @ [58, 123, 125, 44]
     @ dq ''exercise'' @ [58, 123] @ dq ''options'' @ [58, 91] @ dq ''a'' @ [44] @ dq ''b''
     @ [93, 44] @ dq ''correctAnswer'' @ [58, 55, 125, 44]
     @ dq ''practicalApplication'' @ [58, 123, 125, 44]
     @ dq ''reflection'' @ [58, 123, 125, 125]"

definition example_lesson_fields :: "(pystr \<times> json) list" where
  "example_lesson_fields =
     [(ustr ''title'', JString (ustr ''T'')),
      (ustr ''category'', JString (ustr ''c'')),
      (ustr ''concept'', JObject []),
      (ustr ''exercise'',
         JObject [(ustr ''options'', JArray [JString (ustr ''a''), JString (ustr ''b'')]),
                  (ustr ''correctAnswer'', JInt 7)]),
      (ustr ''practicalApplication'', JObject []),
      (ustr ''reflection'', JObject [])]"

text \<open>
  An environment in which the name \<open>groq\<close> is bound, as line 111 presumes, with a
  service that answers the topic request with a topic and the lesson request with
  the given reply.
\<close>

definition example_env :: "(exn + completion) \<Rightarrow> env" where
  "example_env reply =
     \<lparr>globals = ''groq'' # module_globals,
      decoder = json_loads,
      api = (\<lambda>key req. case req of
               TopicRequest c \<Rightarrow> Inr [Some (ustr '' Tides '')]
             | LessonRequest c t \<Rightarrow> reply)\<rparr>"

text \<open>A session that holds a lesson, and a press of the Generate button.\<close>

definition example_state :: session_state where
  "example_state =
     [''api_key'' \<mapsto> SStr (ustr ''gsk_abc''),
      ''current_lesson'' \<mapsto> SLesson (JObject [(ustr ''title'', JString (ustr ''Old''))]),
      ''selected_answer'' \<mapsto> SInt 2,
      ''reflection_text'' \<mapsto> SStr (ustr ''my notes'')]"

definition example_click :: widgets where
  "example_click =
     \<lparr>key_input = ustr ''gsk_abc'', selected_category = ustr ''history'',
      generate_clicked = True, random_draw = 0\<rparr>"

section \<open>Facts about the text primitives\<close>

lemma py_find_ge: "- 1 \<le> py_find c t"
  by (induction t) (auto simp: Let_def)

lemma py_find_absent: "py_find c t = - 1 \<longleftrightarrow> c \<notin> set t"
proof (induction t)
  case Nil
  show ?case by simp
next
  case (Cons x xs)
  have "- 1 \<le> py_find c xs" by (rule py_find_ge)
  with Cons show ?case by (auto simp: Let_def)
qed

lemma py_rfind_absent: "py_rfind c t = - 1 \<longleftrightarrow> c \<notin> set t"
proof -
  have "py_find c (rev t) < int (length t)" if "c \<in> set t"
    using that
  proof -
    have "\<And>u. c \<in> set u \<Longrightarrow> py_find c u < int (length u)"
    proof -
      fix u show "c \<in> set u \<Longrightarrow> py_find c u < int (length u)"
        by (induction u) (auto simp: Let_def py_find_absent)
    qed
    from this [of "rev t"] that show ?thesis by simp
  qed
  then show ?thesis
    using py_find_absent [of c "rev t"] py_find_ge [of c "rev t"]
    by (auto simp: py_rfind_def Let_def)
qed

lemma set_strip: "set (strip t) \<subseteq> set t"
proof -
  have "set (dropWhile isspace (rev (dropWhile isspace t))) \<subseteq> set (rev (dropWhile isspace t))"
    by (rule set_dropWhileD [THEN subsetI])
  also have "\<dots> \<subseteq> set t"
    using set_dropWhileD [of _ isspace t] by auto
  finally show ?thesis by (simp add: strip_def)
qed

lemma spec_occurrences_Cons:
  "spec_occurrences c (x # xs) =
     (if x = c then [0] else []) @ map Suc (spec_occurrences c xs)"
proof -
  have "[0..<Suc (length xs)] = 0 # map Suc [0..<length xs]"
    by (simp add: upt_conv_Cons map_Suc_upt del: upt_Suc)
  then show ?thesis
    by (simp add: spec_occurrences_def filter_map comp_def del: upt_Suc)
qed

lemma spec_occurrences_empty: "spec_occurrences c t = [] \<longleftrightarrow> c \<notin> set t"
  by (auto simp: spec_occurrences_def filter_empty_conv in_set_conv_nth)

lemma py_find_first_index:
  "py_find c t = (case spec_first_index c t of None \<Rightarrow> - 1 | Some i \<Rightarrow> int i)"
proof (induction t)
  case Nil
  show ?case by (simp add: spec_first_index_def spec_occurrences_def)
next
  case (Cons x xs)
  show ?case
  proof (cases "x = c")
    case True
    then show ?thesis by (simp add: spec_first_index_def spec_occurrences_Cons)
  next
    case False
    then show ?thesis
      using Cons
      by (cases "spec_occurrences c xs")
         (auto simp: spec_first_index_def spec_occurrences_Cons Let_def)
  qed
qed

lemma spec_occurrences_rev:
  "rev (spec_occurrences c t) = map (\<lambda>i. length t - 1 - i) (spec_occurrences c (rev t))"
proof -
  let ?n = "length t"
  have "rev [0..<?n] = map (\<lambda>i. ?n - 1 - i) [0..<?n]"
    by (rule nth_equalityI) (auto simp: rev_nth)
  then have "rev (spec_occurrences c t) =
      filter (\<lambda>i. t ! i = c) (map (\<lambda>i. ?n - 1 - i) [0..<?n])"
    by (simp add: spec_occurrences_def rev_filter)
  also have "\<dots> = map (\<lambda>i. ?n - 1 - i) (filter (\<lambda>i. t ! (?n - 1 - i) = c) [0..<?n])"
    by (simp add: filter_map comp_def)
  also have "filter (\<lambda>i. t ! (?n - 1 - i) = c) [0..<?n] = filter (\<lambda>i. rev t ! i = c) [0..<?n]"
    by (rule filter_cong) (auto simp: rev_nth)
  finally show ?thesis by (simp add: spec_occurrences_def)
qed

lemma py_rfind_last_index:
  "py_rfind c t = (case spec_last_index c t of None \<Rightarrow> - 1 | Some j \<Rightarrow> int j)"
proof (cases "spec_occurrences c (rev t)")
  case Nil
  then show ?thesis
    by (simp add: py_rfind_def py_find_first_index spec_first_index_def spec_last_index_def
        spec_occurrences_rev)
next
  case (Cons r rs)
  then have "r \<in> set (spec_occurrences c (rev t))" by simp
  then have "r < length t" by (simp add: spec_occurrences_def)
  with Cons show ?thesis
    by (simp add: py_rfind_def py_find_first_index spec_first_index_def spec_last_index_def
        spec_occurrences_rev Let_def)
qed

lemma py_slice_positions:
  "j < length t \<Longrightarrow> py_slice t (int i) (int j + 1) = map ((!) t) [i..<Suc j]"
proof -
  assume j: "j < length t"
  have m: "map ((!) t) [i..<Suc j] = take (Suc j - i) (drop i t)"
    using j by (intro nth_equalityI) (auto simp: nth_map_upt simp del: upt_Suc)
  have "py_slice t (int i) (int j + 1) = take (Suc j - i) (drop i t)"
  proof (cases "i \<le> length t")
    case True
    have "nat (int j + 1 - int i) = Suc j - i" by simp
    with True j show ?thesis
      by (simp add: py_slice_def Let_def min_def max_def)
  next
    case False
    with j show ?thesis
      by (simp add: py_slice_def Let_def min_def max_def)
  qed
  with m show ?thesis by simp
qed

lemma spec_last_index_less: "spec_last_index c t = Some j \<Longrightarrow> j < length t"
proof -
  assume "spec_last_index c t = Some j"
  then have "j \<in> set (rev (spec_occurrences c t))"
    by (auto simp: spec_last_index_def split: list.splits)
  then show ?thesis by (simp add: spec_occurrences_def)
qed

lemma extract_by_specification:
  "extract_json_from_response loads raw =
     (case spec_braced_substring raw of
        None \<Rightarrow> (Inl (ValueError (ustr ''No valid JSON structure found in response'')), [])
      | Some s \<Rightarrow> parse_and_validate loads s)"
proof (cases "spec_first_index LBRACE (strip raw)")
  case None
  then show ?thesis
    by (simp add: extract_json_from_response_def spec_braced_substring_def Let_def
        py_find_first_index)
next
  case (Some i)
  show ?thesis
  proof (cases "spec_last_index RBRACE (strip raw)")
    case None
    with Some show ?thesis
      by (simp add: extract_json_from_response_def spec_braced_substring_def Let_def
          py_find_first_index py_rfind_last_index)
  next
    case (Some j)
    note j = Some
    have "j < length (strip raw)" using j by (rule spec_last_index_less)
    then show ?thesis
      using \<open>spec_first_index LBRACE (strip raw) = Some i\<close> j
      by (simp add: extract_json_from_response_def spec_braced_substring_def Let_def
          py_find_first_index py_rfind_last_index py_slice_positions)
  qed
qed

lemma py_all_in_object:
  "py_all_in ks (JObject kvs) = Inr (set ks \<subseteq> fst ` set kvs)"
  by (induction ks) auto

lemma strip_around:
  assumes "\<not> isspace a" and "\<not> isspace b"
  shows "\<exists>pre' post'. strip (pre @ a # mid @ b # post) = pre' @ a # mid @ b # post'
           \<and> set pre' \<subseteq> set pre \<and> set post' \<subseteq> set post"
proof -
  let ?pre = "dropWhile isspace pre"
  let ?post = "rev (dropWhile isspace (rev post))"
  have 1: "dropWhile isspace (pre @ a # mid @ b # post) = ?pre @ a # mid @ b # post"
    using assms(1) by (simp add: dropWhile_append3)
  have "dropWhile isspace (rev post @ b # (rev mid @ a # rev ?pre)) =
      dropWhile isspace (rev post) @ b # (rev mid @ a # rev ?pre)"
    using assms(2) by (rule dropWhile_append3)
  then have 2: "strip (pre @ a # mid @ b # post) = ?pre @ a # mid @ b # ?post"
    by (simp add: strip_def 1)
  have "set ?pre \<subseteq> set pre"
    using set_dropWhileD [of _ isspace pre] by auto
  moreover have "set ?post \<subseteq> set post"
    using set_dropWhileD [of _ isspace "rev post"] by auto
  ultimately show ?thesis using 2 by blast
qed

lemma py_find_at: "c \<notin> set xs \<Longrightarrow> py_find c (xs @ c # ys) = int (length xs)"
  by (induction xs) (auto simp: Let_def)

lemma py_rfind_at: "c \<notin> set ys \<Longrightarrow> py_rfind c (xs @ c # ys) = int (length xs)"
proof -
  assume a: "c \<notin> set ys"
  then have "py_find c (rev ys @ c # rev xs) = int (length ys)"
    using py_find_at [of c "rev ys" "rev xs"] by simp
  then show ?thesis by (simp add: py_rfind_def Let_def)
qed

lemma py_slice_middle:
  "py_slice (xs @ ys @ zs) (int (length xs)) (int (length xs + length ys)) = ys"
proof -
  let ?n = "int (length (xs @ ys @ zs))"
  have lo: "max 0 (min ?n (int (length xs))) = int (length xs)"
    by simp
  have hi: "max 0 (min ?n (int (length xs + length ys))) = int (length xs + length ys)"
    by simp
  have "py_slice (xs @ ys @ zs) (int (length xs)) (int (length xs + length ys)) =
      take (nat (int (length xs + length ys) - int (length xs))) (drop (nat (int (length xs))) (xs @ ys @ zs))"
    unfolding py_slice_def Let_def using lo hi by simp
  then show ?thesis by simp
qed

lemma braces_no_space: "\<not> isspace LBRACE" "\<not> isspace RBRACE"
  by (simp_all add: isspace_def LBRACE_def RBRACE_def)

lemma extract_embedded:
  assumes "LBRACE \<notin> set pre" and "RBRACE \<notin> set post"
  shows "extract_json_from_response loads (pre @ LBRACE # mid @ RBRACE # post) =
           parse_and_validate loads (LBRACE # mid @ [RBRACE])"
proof -
  obtain pre' post' where
    s: "strip (pre @ LBRACE # mid @ RBRACE # post) = pre' @ LBRACE # mid @ RBRACE # post'"
    and p: "set pre' \<subseteq> set pre" "set post' \<subseteq> set post"
    using strip_around [OF braces_no_space, of pre mid post] by blast
  have l: "LBRACE \<notin> set pre'" and r: "RBRACE \<notin> set post'"
    using assms p by auto
  have f: "py_find LBRACE (pre' @ LBRACE # mid @ RBRACE # post') = int (length pre')"
    using l by (rule py_find_at)
  have "py_rfind RBRACE ((pre' @ LBRACE # mid) @ RBRACE # post') = int (length (pre' @ LBRACE # mid))"
    using r by (rule py_rfind_at)
  then have g: "py_rfind RBRACE (pre' @ LBRACE # mid @ RBRACE # post') = int (length pre') + int (length mid) + 1"
    by simp
  have "py_slice (pre' @ (LBRACE # mid @ [RBRACE]) @ post') (int (length pre'))
          (int (length pre' + length (LBRACE # mid @ [RBRACE]))) = LBRACE # mid @ [RBRACE]"
    by (rule py_slice_middle)
  then have sl: "py_slice (pre' @ LBRACE # mid @ RBRACE # post')
          (py_find LBRACE (pre' @ LBRACE # mid @ RBRACE # post'))
          (py_rfind RBRACE (pre' @ LBRACE # mid @ RBRACE # post') + 1) = LBRACE # mid @ [RBRACE]"
    by (simp add: f g add.commute add.left_commute)
  have "py_find LBRACE (pre' @ LBRACE # mid @ RBRACE # post') \<noteq> - 1"
    and "py_rfind RBRACE (pre' @ LBRACE # mid @ RBRACE # post') \<noteq> - 1"
    by (simp_all add: f g)
  then show ?thesis
    by (simp only: extract_json_from_response_def Let_def s sl) simp
qed

lemma parse_and_validate_object:
  "loads s = Inr (JObject kvs) \<Longrightarrow>
   parse_and_validate loads s =
     (if set required_keys \<subseteq> fst ` set kvs then (Inr (JObject kvs), [])
      else (Inl (ValueError (ustr ''Missing required keys in lesson content'')), []))"
  by (simp add: parse_and_validate_def py_all_in_object)

section \<open>Facts about generate_lesson and main\<close>

lemma groq_not_bound: "''groq'' \<notin> set module_globals"
  by (simp add: module_globals_def)

lemma generate_lesson_app_none:
  "fst (generate_lesson (app_env service) category api_key) = None"
  by (simp add: generate_lesson_def generate_lesson_try_def app_env_def groq_not_bound)

lemma generate_lesson_when_bound:
  assumes "''groq'' \<in> set (globals w)"
    and "api w api_key (TopicRequest category) = Inr (Some content # more_choices)"
    and "api w api_key (LessonRequest category (strip content)) = Inr (Some response_text # others)"
    and "extract_json_from_response (decoder w) response_text = (Inr lesson, shown)"
  shows "generate_lesson w category api_key =
           (Some lesson, StInfo (ustr ''Generating lesson about: '' @ strip content) # shown)"
  using assms
  by (simp add: generate_lesson_def generate_lesson_try_def first_content_def Let_def)

lemma try_topic_request_fails:
  "''groq'' \<in> set (globals w) \<Longrightarrow> api w api_key (TopicRequest category) = Inl e \<Longrightarrow>
   generate_lesson_try w category api_key = (Inl e, [], None)"
  by (simp add: generate_lesson_try_def)

lemma try_lesson_request_fails:
  "''groq'' \<in> set (globals w) \<Longrightarrow>
   api w api_key (TopicRequest category) = Inr (Some content # more_choices) \<Longrightarrow>
   api w api_key (LessonRequest category (strip content)) = Inl e \<Longrightarrow>
   generate_lesson_try w category api_key =
     (Inl e, [StInfo (ustr ''Generating lesson about: '' @ strip content)], None)"
  by (simp add: generate_lesson_try_def first_content_def Let_def)

lemma try_extraction_fails:
  "''groq'' \<in> set (globals w) \<Longrightarrow>
   api w api_key (TopicRequest category) = Inr (Some content # more_choices) \<Longrightarrow>
   api w api_key (LessonRequest category (strip content)) = Inr (Some response_text # others) \<Longrightarrow>
   extract_json_from_response (decoder w) response_text = (Inl e, shown) \<Longrightarrow>
   generate_lesson_try w category api_key =
     (Inl e, StInfo (ustr ''Generating lesson about: '' @ strip content) # shown,
      Some (Some response_text))"
  by (simp add: generate_lesson_try_def first_content_def Let_def)

lemma py_all_in_truthy:
  "py_all_in required_keys d = Inr True \<Longrightarrow> truthy d"
proof (cases d)
  case (JString s)
  assume "py_all_in required_keys d = Inr True"
  with JString have "py_substring (ustr ''title'') s"
    by (simp add: required_keys_def split: if_splits)
  then show ?thesis using JString by (cases s) (simp_all add: ustr_def)
next
  case (JArray xs)
  assume "py_all_in required_keys d = Inr True"
  with JArray have "JString (ustr ''title'') \<in> set xs"
    by (simp add: required_keys_def split: if_splits)
  then show ?thesis using JArray by auto
next
  case (JObject kvs)
  assume "py_all_in required_keys d = Inr True"
  with JObject have "ustr ''title'' \<in> fst ` set kvs"
    by (simp add: required_keys_def split: if_splits)
  then show ?thesis using JObject by auto
qed (simp_all add: required_keys_def)

lemma parse_and_validate_Inr:
  "parse_and_validate loads s = (Inr d, shown) \<Longrightarrow> py_all_in required_keys d = Inr True"
  by (auto simp: parse_and_validate_def split: sum.splits exn.splits if_splits)

lemma extract_Inr:
  "extract_json_from_response loads raw = (Inr d, shown) \<Longrightarrow>
   py_all_in required_keys d = Inr True"
  by (auto simp: extract_json_from_response_def Let_def split: if_splits
      dest: parse_and_validate_Inr)

lemma generate_lesson_try_Inr:
  "generate_lesson_try w category api_key = (Inr d, shown, response) \<Longrightarrow>
   py_all_in required_keys d = Inr True"
  by (auto simp: generate_lesson_try_def Let_def
      split: if_splits sum.splits option.splits prod.splits dest: extract_Inr)

lemma generate_lesson_Some_truthy:
  "fst (generate_lesson w category api_key) = Some d \<Longrightarrow> truthy d"
proof -
  assume a: "fst (generate_lesson w category api_key) = Some d"
  obtain r shown response where t: "generate_lesson_try w category api_key = (r, shown, response)"
    by (metis prod_cases3)
  with a have "r = Inr d"
    by (cases r) (simp_all add: generate_lesson_def)
  with t show ?thesis
    by (auto dest: generate_lesson_try_Inr py_all_in_truthy)
qed

lemma setdefault_keeps:
  "t k \<noteq> None \<Longrightarrow> (if t a = None then t(a \<mapsto> v) else t) k = t k"
  by (cases "k = a") auto

lemma initialize_keeps: "s k \<noteq> None \<Longrightarrow> initialize_session_state s k = s k"
  by (simp add: initialize_session_state_def Let_def setdefault_keeps del: fun_upd_apply
      split del: if_split)

lemma main_without_lesson:
  assumes "\<not> (generate_clicked inp \<and> key_input inp \<noteq> [] \<and>
        fst (generate_lesson w (chosen_category inp) (key_input inp)) \<noteq> None)"
  shows "fst (main w inp s) =
           (if key_input inp \<noteq> []
            then (initialize_session_state s)(''api_key'' \<mapsto> SStr (key_input inp))
            else initialize_session_state s)"
proof -
  obtain r shown where g: "generate_lesson w (chosen_category inp) (key_input inp) = (r, shown)"
    by (cases "generate_lesson w (chosen_category inp) (key_input inp)")
  show ?thesis
  proof (cases "generate_clicked inp \<and> key_input inp \<noteq> []")
    case True
    with assms g have "r = None" by simp
    with True g show ?thesis
      by (simp add: main_def Let_def del: fun_upd_apply)
  next
    case False
    then show ?thesis
      by (auto simp: main_def Let_def simp del: fun_upd_apply)
  qed
qed

lemma main_with_lesson:
  assumes "generate_clicked inp" and "key_input inp \<noteq> []"
    and "fst (generate_lesson w (chosen_category inp) (key_input inp)) = Some lesson"
  shows "fst (main w inp s) =
           ((initialize_session_state s)(''api_key'' \<mapsto> SStr (key_input inp)))
             (''current_lesson'' \<mapsto> SLesson lesson,
              ''selected_answer'' \<mapsto> SNone,
              ''reflection_text'' \<mapsto> SStr [])"
proof -
  have t: "truthy lesson"
    using assms(3) by (rule generate_lesson_Some_truthy)
  obtain shown where g: "generate_lesson w (chosen_category inp) (key_input inp) = (Some lesson, shown)"
    using assms(3) by (cases "generate_lesson w (chosen_category inp) (key_input inp)") auto
  show ?thesis
    using assms(1,2) g t by (simp add: main_def Let_def del: fun_upd_apply)
qed

section \<open>Evaluation on concrete texts\<close>

lemmas eval_text = ustr_def dq_def LBRACE_def RBRACE_def isspace_def strip_def py_rfind_def
  py_slice_def Let_def

lemmas eval_json = json_ws_def skip_ws_def is_digit_def hexval_def unescape_def
  digits_value_def match_number_def json_loads_def

lemmas eval_spec = spec_occurrences_def spec_first_index_def spec_last_index_def
  spec_braced_substring_def

lemma example_lesson_loads:
  "json_loads example_lesson_text = Inr (JObject example_lesson_fields)"
  by (simp add: example_lesson_text_def example_lesson_fields_def eval_text eval_json)

lemma example_lesson_keys:
  "set required_keys \<subseteq> fst ` set example_lesson_fields"
  by (simp add: required_keys_def example_lesson_fields_def ustr_def)

lemma example_lesson_text_shape:
  "example_lesson_text = LBRACE # butlast (tl example_lesson_text) @ [RBRACE]"
  by (simp add: example_lesson_text_def eval_text)

lemma json_loads_empty:
  "json_loads [] = Inl (JSONDecodeError \<lparr>msg = ustr ''Expecting value'', doc = [], pos = 0\<rparr>)"
  by (simp add: eval_json eval_text)

lemma example_extract:
  "extract_json_from_response json_loads example_lesson_text =
      (Inr (JObject example_lesson_fields), [])"
proof -
  have 1: "spec_braced_substring example_lesson_text = Some example_lesson_text"
    by (simp add: example_lesson_text_def eval_spec eval_text)
  show ?thesis
    using 1 example_lesson_loads example_lesson_keys
    by (simp add: extract_by_specification parse_and_validate_object)
qed

lemma example_generate_ok:
  "generate_lesson (example_env (Inr [Some example_lesson_text])) (ustr ''history'') (ustr ''gsk_abc'') =
     (Some (JObject example_lesson_fields), [StInfo (ustr ''Generating lesson about: Tides'')])"
proof -
  let ?w = "example_env (Inr [Some example_lesson_text])"
  have s: "strip (ustr '' Tides '') = ustr ''Tides''"
    by (simp add: eval_text)
  have 1: "''groq'' \<in> set (globals ?w)"
    by (simp add: example_env_def)
  have 2: "api ?w (ustr ''gsk_abc'') (TopicRequest (ustr ''history'')) = Inr (Some (ustr '' Tides '') # [])"
    by (simp add: example_env_def)
  have 3: "api ?w (ustr ''gsk_abc'') (LessonRequest (ustr ''history'') (strip (ustr '' Tides ''))) =
      Inr (Some example_lesson_text # [])"
    by (simp add: example_env_def)
  have 4: "extract_json_from_response (decoder ?w) example_lesson_text =
      (Inr (JObject example_lesson_fields), [])"
    using example_extract by (simp add: example_env_def)
  have "generate_lesson ?w (ustr ''history'') (ustr ''gsk_abc'') =
      (Some (JObject example_lesson_fields),
       StInfo (ustr ''Generating lesson about: '' @ strip (ustr '' Tides '')) # [])"
    using 1 2 3 4 by (rule generate_lesson_when_bound)
  then show ?thesis
    by (simp only: s) (simp add: ustr_def)
qed

lemma example_chosen: "chosen_category example_click = ustr ''history''"
  by (simp add: chosen_category_def example_click_def ustr_def)

lemma example_parse_failure:
  "extract_json_from_response json_loads (ustr ''Lesson: {title: none} '') =
     (Inl (JSONDecodeError
            \<lparr>msg = ustr ''Expecting property name enclosed in double quotes'',
             doc = ustr ''{title: none}'', pos = 1\<rparr>),
      [StError (ustr ''Failed to parse JSON response''), StCode (Some (ustr ''{title: none}''))])"
  by (simp add: extract_json_from_response_def parse_and_validate_def eval_text eval_json)

section \<open>The claims\<close>

text \<open>
  C1: for every raw text and every decoder, extraction trims the text, takes the index of
  the first \<open>{\<close> and of the last \<open>}\<close> of the trimmed text, fails with the "No valid JSON
  structure found in response" ValueError when one of them is absent, and otherwise hands
  exactly the characters at the positions from the first \<open>{\<close> to the last \<open>}\<close> inclusive
  to the \<open>try\<close> block that parses them. (When the last \<open>}\<close> stands before the first \<open>{\<close>
  there is no such position and the text parsed is empty.)
\<close>

theorem C1_extraction_first_to_last_brace:
  "extract_json_from_response loads raw =
     (let t = strip raw
      in case (spec_first_index LBRACE t, spec_last_index RBRACE t) of
           (Some i, Some j) \<Rightarrow> parse_and_validate loads (map ((!) t) [i..<Suc j])
         | _ \<Rightarrow> (Inl (ValueError (ustr ''No valid JSON structure found in response'')), []))"
proof -
  have "extract_json_from_response loads raw =
      (case spec_braced_substring raw of
         None \<Rightarrow> (Inl (ValueError (ustr ''No valid JSON structure found in response'')), [])
       | Some s \<Rightarrow> parse_and_validate loads s)"
    by (rule extract_by_specification)
  then show ?thesis
    by (simp add: spec_braced_substring_def Let_def split: option.splits)
qed

text \<open>
  Scenario 4 of the specification, with C1: two blocks with prose between them. The text
  parsed runs from the first \<open>{\<close> to the last \<open>}\<close>, prose included, and is no JSON.
\<close>

theorem C1_two_blocks_witness:
  "extract_json_from_response json_loads (ustr ''a {} and {} b'') =
     parse_and_validate json_loads (ustr ''{} and {}'') \<and>
   fst (parse_and_validate json_loads (ustr ''{} and {}'')) =
     Inl (JSONDecodeError \<lparr>msg = ustr ''Extra data'', doc = ustr ''{} and {}'', pos = 3\<rparr>)"
proof -
  have "extract_json_from_response json_loads (ustr ''a {} and {} b'') =
      parse_and_validate json_loads (ustr ''{} and {}'')"
    using C1_extraction_first_to_last_brace [of json_loads "ustr ''a {} and {} b''"]
    by (simp add: eval_spec eval_text)
  moreover have "fst (parse_and_validate json_loads (ustr ''{} and {}'')) =
      Inl (JSONDecodeError \<lparr>msg = ustr ''Extra data'', doc = ustr ''{} and {}'', pos = 3\<rparr>)"
    by (simp add: parse_and_validate_def eval_json eval_text)
  ultimately show ?thesis by simp
qed

text \<open>
  C2, as the code has it: when the text before the object holds no \<open>{\<close> and the text after
  it holds no \<open>}\<close>, and the decoder accepts the text of the object (from its \<open>{\<close> to its
  \<open>}\<close>) as an object with the six required keys, extraction returns that object and shows
  nothing.
\<close>

theorem C2_object_between_brace_free_text:
  assumes "LBRACE \<notin> set pre" and "RBRACE \<notin> set post"
    and "loads (LBRACE # mid @ [RBRACE]) = Inr (JObject kvs)"
    and "set required_keys \<subseteq> fst ` set kvs"
  shows "extract_json_from_response loads (pre @ LBRACE # mid @ RBRACE # post) =
           (Inr (JObject kvs), [])"
proof -
  have "extract_json_from_response loads (pre @ LBRACE # mid @ RBRACE # post) =
      parse_and_validate loads (LBRACE # mid @ [RBRACE])"
    using assms(1,2) by (rule extract_embedded)
  also have "\<dots> = (Inr (JObject kvs), [])"
    using assms(3,4) by (simp add: parse_and_validate_object)
  finally show ?thesis .
qed

theorem C2_object_between_witness:
  "extract_json_from_response json_loads
     (ustr ''Sure! Here it is: '' @ example_lesson_text @ ustr '' Enjoy {:'') =
   (Inr (JObject example_lesson_fields), [])"
proof -
  let ?mid = "butlast (tl example_lesson_text)"
  have 1: "LBRACE \<notin> set (ustr ''Sure! Here it is: '')"
    by (simp add: eval_text)
  have 2: "RBRACE \<notin> set (ustr '' Enjoy {:'')"
    by (simp add: eval_text)
  have 3: "json_loads (LBRACE # ?mid @ [RBRACE]) = Inr (JObject example_lesson_fields)"
    using example_lesson_loads example_lesson_text_shape by simp
  have "extract_json_from_response json_loads
      (ustr ''Sure! Here it is: '' @ LBRACE # ?mid @ RBRACE # ustr '' Enjoy {:'') =
      (Inr (JObject example_lesson_fields), [])"
    using 1 2 3 example_lesson_keys
    by (rule C2_object_between_brace_free_text
          [where pre = "ustr ''Sure! Here it is: ''" and post = "ustr '' Enjoy {:''"
             and loads = json_loads and mid = "butlast (tl example_lesson_text)"
             and kvs = example_lesson_fields])
  moreover have "LBRACE # ?mid @ RBRACE # ustr '' Enjoy {:'' =
      example_lesson_text @ ustr '' Enjoy {:''"
    using example_lesson_text_shape by (metis append_Cons append_Nil append_assoc)
  ultimately show ?thesis by simp
qed

text \<open>
  C2 as the specification states it fails: here the valid object with its six keys is
  preceded by prose that holds a \<open>{\<close>; the text parsed starts at that brace, the decoder
  refuses it, and extraction raises the decoder's error instead of returning the object.
\<close>

theorem C2_preceding_brace_counterexample:
  "json_loads example_lesson_text = Inr (JObject example_lesson_fields) \<and>
   set required_keys \<subseteq> fst ` set example_lesson_fields \<and>
   extract_json_from_response json_loads (ustr ''Format {draft}: '' @ example_lesson_text) =
     (Inl (JSONDecodeError
            \<lparr>msg = ustr ''Expecting property name enclosed in double quotes'',
             doc = ustr ''{draft}: '' @ example_lesson_text, pos = 1\<rparr>),
      [StError (ustr ''Failed to parse JSON response''),
       StCode (Some (ustr ''{draft}: '' @ example_lesson_text))])"
proof -
  have "extract_json_from_response json_loads (ustr ''Format {draft}: '' @ example_lesson_text) =
     (Inl (JSONDecodeError
            \<lparr>msg = ustr ''Expecting property name enclosed in double quotes'',
             doc = ustr ''{draft}: '' @ example_lesson_text, pos = 1\<rparr>),
      [StError (ustr ''Failed to parse JSON response''),
       StCode (Some (ustr ''{draft}: '' @ example_lesson_text))])"
    by (simp add: extract_json_from_response_def parse_and_validate_def
        example_lesson_text_def eval_text eval_json)
  then show ?thesis
    using example_lesson_loads example_lesson_keys by simp
qed

text \<open>
  C3: a raw text with no \<open>{\<close> or no \<open>}\<close> makes extraction fail with the
  "No valid JSON structure found in response" ValueError, whatever the decoder would do
  (it is not called), and nothing is shown on the page.
\<close>

theorem C3_no_brace_no_json_structure:
  "LBRACE \<notin> set raw \<or> RBRACE \<notin> set raw \<Longrightarrow>
   extract_json_from_response loads raw =
     (Inl (ValueError (ustr ''No valid JSON structure found in response'')), [])"
proof -
  assume a: "LBRACE \<notin> set raw \<or> RBRACE \<notin> set raw"
  have "LBRACE \<notin> set (strip raw) \<or> RBRACE \<notin> set (strip raw)"
    using a set_strip [of raw] by blast
  then have "py_find LBRACE (strip raw) = - 1 \<or> py_rfind RBRACE (strip raw) = - 1"
    by (simp add: py_find_absent py_rfind_absent)
  then show ?thesis
    by (auto simp: extract_json_from_response_def Let_def)
qed

theorem C3_no_brace_witness:
  "LBRACE \<notin> set (ustr ''No braces here at all.'') \<and>
   extract_json_from_response json_loads (ustr ''No braces here at all.'') =
     (Inl (ValueError (ustr ''No valid JSON structure found in response'')), [])"
proof -
  have h: "LBRACE \<notin> set (ustr ''No braces here at all.'')"
    by (simp add: ustr_def LBRACE_def)
  show ?thesis
    using h C3_no_brace_no_json_structure [of "ustr ''No braces here at all.''" json_loads]
    by blast
qed

text \<open>
  C4: when the text from the first \<open>{\<close> to the last \<open>}\<close> is decoded to an object that lacks
  one of the six required keys, extraction raises the ValueError "Missing required keys
  in lesson content". It is no JSONDecodeError, so the handler of line 102 does not run
  and nothing is shown.
\<close>

theorem C4_missing_keys:
  assumes "spec_braced_substring raw = Some s"
    and "loads s = Inr (JObject kvs)"
    and "k \<in> set required_keys" and "k \<notin> fst ` set kvs"
  shows "extract_json_from_response loads raw =
           (Inl (ValueError (ustr ''Missing required keys in lesson content'')), [])"
proof -
  have "\<not> set required_keys \<subseteq> fst ` set kvs"
    using assms(3,4) by blast
  then have "parse_and_validate loads s =
      (Inl (ValueError (ustr ''Missing required keys in lesson content'')), [])"
    using assms(2) by (simp add: parse_and_validate_object)
  then show ?thesis
    using assms(1) by (simp add: extract_by_specification)
qed

text \<open>Scenario 2 of the specification, with C4: only the title is present.\<close>

theorem C4_missing_keys_witness:
  "extract_json_from_response json_loads
     (ustr ''Here is the lesson: {'' @ dq ''title'' @ ustr '':'' @ dq ''X'' @ ustr ''}'') =
   (Inl (ValueError (ustr ''Missing required keys in lesson content'')), [])"
proof -
  let ?raw = "ustr ''Here is the lesson: {'' @ dq ''title'' @ ustr '':'' @ dq ''X'' @ ustr ''}''"
  let ?s = "ustr ''{'' @ dq ''title'' @ ustr '':'' @ dq ''X'' @ ustr ''}''"
  have 1: "spec_braced_substring ?raw = Some ?s"
    by (simp add: eval_spec eval_text)
  have 2: "json_loads ?s = Inr (JObject [(ustr ''title'', JString (ustr ''X''))])"
    by (simp add: eval_json eval_text)
  have 3: "ustr ''category'' \<in> set required_keys"
    by (simp add: required_keys_def)
  have 4: "ustr ''category'' \<notin> fst ` set [(ustr ''title'', JString (ustr ''X''))]"
    by (simp add: ustr_def)
  show ?thesis
    using 1 2 3 4 by (rule C4_missing_keys)
qed

text \<open>
  C5: when the decoder raises a JSONDecodeError on the text from the first \<open>{\<close> to the last
  \<open>}\<close>, extraction shows "Failed to parse JSON response" followed by that very text, and
  raises the same error again.
\<close>

theorem C5_parse_error_shown_and_raised:
  assumes "spec_braced_substring raw = Some s"
    and "loads s = Inl (JSONDecodeError e)"
  shows "extract_json_from_response loads raw =
           (Inl (JSONDecodeError e),
            [StError (ustr ''Failed to parse JSON response''), StCode (Some s)])"
  using assms by (simp add: extract_by_specification parse_and_validate_def)

theorem C5_parse_error_witness:
  "extract_json_from_response json_loads (ustr ''Lesson: {title: none} '') =
     (Inl (JSONDecodeError
            \<lparr>msg = ustr ''Expecting property name enclosed in double quotes'',
             doc = ustr ''{title: none}'', pos = 1\<rparr>),
      [StError (ustr ''Failed to parse JSON response''), StCode (Some (ustr ''{title: none}''))])"
proof -
  have 1: "spec_braced_substring (ustr ''Lesson: {title: none} '') = Some (ustr ''{title: none}'')"
    by (simp add: eval_spec eval_text)
  have 2: "json_loads (ustr ''{title: none}'') =
      Inl (JSONDecodeError
            \<lparr>msg = ustr ''Expecting property name enclosed in double quotes'',
             doc = ustr ''{title: none}'', pos = 1\<rparr>)"
    by (simp add: eval_json eval_text)
  show ?thesis
    using 1 2 by (rule C5_parse_error_shown_and_raised)
qed

text \<open>
  C6: when the text from the first \<open>{\<close> to the last \<open>}\<close> is decoded to an object that has the
  six required keys, extraction returns that object whatever the values under the keys
  are: nothing below the top level is looked at.
\<close>

theorem C6_key_complete_object_accepted:
  assumes "spec_braced_substring raw = Some s"
    and "loads s = Inr (JObject kvs)"
    and "set required_keys \<subseteq> fst ` set kvs"
  shows "extract_json_from_response loads raw = (Inr (JObject kvs), [])"
  using assms by (simp add: extract_by_specification parse_and_validate_object)

text \<open>
  With C6: the example lesson, whose exercise has two options and the answer index 7,
  is accepted.
\<close>

theorem C6_malformed_nested_witness:
  "extract_json_from_response json_loads example_lesson_text =
     (Inr (JObject example_lesson_fields), []) \<and>
   map_of example_lesson_fields (ustr ''exercise'') =
     Some (JObject [(ustr ''options'', JArray [JString (ustr ''a''), JString (ustr ''b'')]),
                    (ustr ''correctAnswer'', JInt 7)])"
proof -
  have 1: "spec_braced_substring example_lesson_text = Some example_lesson_text"
    by (simp add: example_lesson_text_def eval_spec eval_text)
  have "extract_json_from_response json_loads example_lesson_text =
      (Inr (JObject example_lesson_fields), [])"
    using 1 example_lesson_loads example_lesson_keys
    by (rule C6_key_complete_object_accepted)
  moreover have "map_of example_lesson_fields (ustr ''exercise'') =
     Some (JObject [(ustr ''options'', JArray [JString (ustr ''a''), JString (ustr ''b'')]),
                    (ustr ''correctAnswer'', JInt 7)])"
    by (simp add: example_lesson_fields_def ustr_def)
  ultimately show ?thesis by simp
qed

text \<open>
  C7 fails on the code. Line 111 asks for \<open>groq.Groq\<close>, and the module binds no name
  \<open>groq\<close>: the NameError is caught by the handler of line 150, no request is sent, and the
  function reports the error and returns \<open>None\<close>, whatever the service would have
  answered. (Lemma \<open>generate_lesson_when_bound\<close> shows the rest of the function doing what
  the claim says, once the name is bound.)
\<close>

theorem C7_generate_lesson_name_error:
  "generate_lesson (app_env service) category api_key =
     (None,
      [StError (ustr ''Error details: name '' @ [39] @ ustr ''groq'' @ [39]
                @ ustr '' is not defined''),
       StError (ustr ''Response received:''),
       StCode (Some (ustr ''No response received''))])"
  by (simp add: generate_lesson_def generate_lesson_try_def app_env_def groq_not_bound ustr_def)

text \<open>
  C8: whatever exception leaves the body of the \<open>try\<close> (the errors of the service, of the
  extraction, or any other), \<open>generate_lesson\<close> returns \<open>None\<close> after three calls on
  \<open>st\<close>: the text of the exception, "Response received:", and the response or "No
  response received". Lemmas \<open>try_topic_request_fails\<close>, \<open>try_lesson_request_fails\<close> and
  \<open>try_extraction_fails\<close> say where the failures of the claim enter. \<open>generate_lesson\<close>
  and \<open>main\<close> have a value for every input: no exception passes them.
\<close>

theorem C8_failures_become_none:
  assumes "generate_lesson_try w category api_key = (Inl e, shown, response)"
  shows "generate_lesson w category api_key =
           (None,
            shown @
            [StError (ustr ''Error details: '' @ py_str e),
             StError (ustr ''Response received:''),
             StCode (case response of
                       None \<Rightarrow> Some (ustr ''No response received'')
                     | Some r \<Rightarrow> r)])"
  using assms by (simp add: generate_lesson_def)

text \<open>With C8: the response is no JSON, the decoder's error is reported.\<close>

theorem C8_parse_failure_witness:
  "generate_lesson (example_env (Inr [Some (ustr ''Lesson: {title: none} '')]))
     (ustr ''history'') (ustr ''gsk_abc'') =
   (None,
    [StInfo (ustr ''Generating lesson about: Tides''),
     StError (ustr ''Failed to parse JSON response''),
     StCode (Some (ustr ''{title: none}'')),
     StError (ustr ''Error details: Expecting property name enclosed in double quotes: line 1 column 2 (char 1)''),
     StError (ustr ''Response received:''),
     StCode (Some (ustr ''Lesson: {title: none} ''))])"
proof -
  let ?w = "example_env (Inr [Some (ustr ''Lesson: {title: none} '')])"
  let ?e = "JSONDecodeError
            \<lparr>msg = ustr ''Expecting property name enclosed in double quotes'',
             doc = ustr ''{title: none}'', pos = 1\<rparr>"
  have 1: "''groq'' \<in> set (globals ?w)"
    by (simp add: example_env_def)
  have 2: "api ?w (ustr ''gsk_abc'') (TopicRequest (ustr ''history'')) = Inr (Some (ustr '' Tides '') # [])"
    by (simp add: example_env_def)
  have 3: "api ?w (ustr ''gsk_abc'') (LessonRequest (ustr ''history'') (strip (ustr '' Tides ''))) =
      Inr (Some (ustr ''Lesson: {title: none} '') # [])"
    by (simp add: example_env_def)
  have 4: "extract_json_from_response (decoder ?w) (ustr ''Lesson: {title: none} '') =
     (Inl ?e,
      [StError (ustr ''Failed to parse JSON response''), StCode (Some (ustr ''{title: none}''))])"
    using example_parse_failure by (simp add: example_env_def)
  have t: "generate_lesson_try ?w (ustr ''history'') (ustr ''gsk_abc'') =
      (Inl ?e,
       StInfo (ustr ''Generating lesson about: '' @ strip (ustr '' Tides ''))
       # [StError (ustr ''Failed to parse JSON response''), StCode (Some (ustr ''{title: none}''))],
       Some (Some (ustr ''Lesson: {title: none} '')))"
    using 1 2 3 4 by (rule try_extraction_fails)
  have s: "py_str ?e =
      ustr ''Expecting property name enclosed in double quotes: line 1 column 2 (char 1)''"
    by (simp add: jde_str_def ustr_def)
  have st: "strip (ustr '' Tides '') = ustr ''Tides''"
    by (simp add: eval_text)
  show ?thesis
    using C8_failures_become_none [OF t]
    by (simp only: s st) (simp add: ustr_def)
qed

text \<open>
  C9: in a run of \<open>main\<close> that produces no lesson (the button was not pressed, no key was
  entered, or \<open>generate_lesson\<close> returned \<open>None\<close>), the entries \<open>current_lesson\<close>,
  \<open>selected_answer\<close> and \<open>reflection_text\<close> of the session state are those the
  initialisation leaves, which are the entries the state had when it had them. When
  \<open>generate_lesson\<close> returns a lesson, the three entries become that lesson, \<open>None\<close>
  and the empty text.
\<close>

theorem C9_session_state_frame:
  "(\<not> (generate_clicked inp \<and> key_input inp \<noteq> [] \<and>
        fst (generate_lesson w (chosen_category inp) (key_input inp)) \<noteq> None) \<longrightarrow>
      (\<forall>k \<in> {''current_lesson'', ''selected_answer'', ''reflection_text''}.
         fst (main w inp s) k = initialize_session_state s k \<and>
         (s k \<noteq> None \<longrightarrow> fst (main w inp s) k = s k))) \<and>
   (generate_clicked inp \<and> key_input inp \<noteq> [] \<and>
      fst (generate_lesson w (chosen_category inp) (key_input inp)) = Some lesson \<longrightarrow>
      fst (main w inp s) ''current_lesson'' = Some (SLesson lesson) \<and>
      fst (main w inp s) ''selected_answer'' = Some SNone \<and>
      fst (main w inp s) ''reflection_text'' = Some (SStr []))"
proof (intro conjI impI ballI)
  fix k
  assume a: "\<not> (generate_clicked inp \<and> key_input inp \<noteq> [] \<and>
        fst (generate_lesson w (chosen_category inp) (key_input inp)) \<noteq> None)"
    and k: "k \<in> {''current_lesson'', ''selected_answer'', ''reflection_text''}"
  from k have "k \<noteq> ''api_key''" by auto
  then show 1: "fst (main w inp s) k = initialize_session_state s k"
    by (simp add: main_without_lesson [OF a])
  assume "s k \<noteq> None"
  then show "fst (main w inp s) k = s k"
    using 1 by (simp add: initialize_keeps)
next
  assume b: "generate_clicked inp \<and> key_input inp \<noteq> [] \<and>
      fst (generate_lesson w (chosen_category inp) (key_input inp)) = Some lesson"
  then have m: "fst (main w inp s) =
           ((initialize_session_state s)(''api_key'' \<mapsto> SStr (key_input inp)))
             (''current_lesson'' \<mapsto> SLesson lesson,
              ''selected_answer'' \<mapsto> SNone,
              ''reflection_text'' \<mapsto> SStr [])"
    by (intro main_with_lesson) simp_all
  show "fst (main w inp s) ''current_lesson'' = Some (SLesson lesson)"
    by (simp add: m)
  show "fst (main w inp s) ''selected_answer'' = Some SNone"
    by (simp add: m)
  show "fst (main w inp s) ''reflection_text'' = Some (SStr [])"
    by (simp add: m)
qed

text \<open>
  With C9: a press of the button in a session that holds a lesson, first in the program
  as it is (generation fails), then with the name \<open>groq\<close> bound (generation succeeds).
\<close>

theorem C9_session_state_witness:
  "fst (main (app_env (\<lambda>key req. Inr [Some example_lesson_text])) example_click example_state)
     ''current_lesson'' = Some (SLesson (JObject [(ustr ''title'', JString (ustr ''Old''))])) \<and>
   fst (main (app_env (\<lambda>key req. Inr [Some example_lesson_text])) example_click example_state)
     ''selected_answer'' = Some (SInt 2) \<and>
   fst (main (app_env (\<lambda>key req. Inr [Some example_lesson_text])) example_click example_state)
     ''reflection_text'' = Some (SStr (ustr ''my notes'')) \<and>
   fst (main (example_env (Inr [Some example_lesson_text])) example_click example_state)
     ''current_lesson'' = Some (SLesson (JObject example_lesson_fields)) \<and>
   fst (main (example_env (Inr [Some example_lesson_text])) example_click example_state)
     ''selected_answer'' = Some SNone \<and>
   fst (main (example_env (Inr [Some example_lesson_text])) example_click example_state)
     ''reflection_text'' = Some (SStr [])"
proof -
  let ?fail = "app_env (\<lambda>key req. Inr [Some example_lesson_text])"
  let ?ok = "example_env (Inr [Some example_lesson_text])"
  have c: "generate_clicked example_click \<and> key_input example_click \<noteq> []"
    by (simp add: example_click_def ustr_def)
  have k: "key_input example_click = ustr ''gsk_abc''"
    by (simp add: example_click_def)
  have f: "fst (generate_lesson ?fail (chosen_category example_click) (key_input example_click)) = None"
    by (rule generate_lesson_app_none)
  have o: "fst (generate_lesson ?ok (chosen_category example_click) (key_input example_click)) =
      Some (JObject example_lesson_fields)"
    by (simp only: example_chosen k example_generate_ok fst_conv)
  have nf: "\<not> (generate_clicked example_click \<and> key_input example_click \<noteq> [] \<and>
      fst (generate_lesson ?fail (chosen_category example_click) (key_input example_click)) \<noteq> None)"
    using f by simp
  have s1: "example_state ''current_lesson'' =
      Some (SLesson (JObject [(ustr ''title'', JString (ustr ''Old''))]))"
    and s2: "example_state ''selected_answer'' = Some (SInt 2)"
    and s3: "example_state ''reflection_text'' = Some (SStr (ustr ''my notes''))"
    by (simp_all add: example_state_def)
  have A: "\<forall>k \<in> {''current_lesson'', ''selected_answer'', ''reflection_text''}.
         fst (main ?fail example_click example_state) k = initialize_session_state example_state k \<and>
         (example_state k \<noteq> None \<longrightarrow> fst (main ?fail example_click example_state) k = example_state k)"
    using C9_session_state_frame [where w = "?fail" and inp = example_click and s = example_state]
      nf by blast
  have B: "fst (main ?ok example_click example_state) ''current_lesson'' =
        Some (SLesson (JObject example_lesson_fields)) \<and>
      fst (main ?ok example_click example_state) ''selected_answer'' = Some SNone \<and>
      fst (main ?ok example_click example_state) ''reflection_text'' = Some (SStr [])"
    using C9_session_state_frame [where w = "?ok" and inp = example_click and s = example_state
        and lesson = "JObject example_lesson_fields"] c o by blast
  have r1: "fst (main ?fail example_click example_state) ''current_lesson'' =
      Some (SLesson (JObject [(ustr ''title'', JString (ustr ''Old''))]))"
    using A s1 by auto
  have r2: "fst (main ?fail example_click example_state) ''selected_answer'' = Some (SInt 2)"
    using A s2 by auto
  have r3: "fst (main ?fail example_click example_state) ''reflection_text'' =
      Some (SStr (ustr ''my notes''))"
    using A s3 by auto
  from r1 r2 r3 B show ?thesis by blast
qed

text \<open>
  C10: when both braces occur in the trimmed text and the last \<open>}\<close> stands before the
  first \<open>{\<close>, extraction does not report a missing JSON structure: the slice is empty,
  the decoder is called on the empty text and raises "Expecting value", which extraction
  shows with the empty text and raises again.
\<close>

theorem C10_reversed_braces_parse_error:
  assumes "spec_first_index LBRACE (strip raw) = Some i"
    and "spec_last_index RBRACE (strip raw) = Some j"
    and "j < i"
  shows "extract_json_from_response json_loads raw =
           (Inl (JSONDecodeError \<lparr>msg = ustr ''Expecting value'', doc = [], pos = 0\<rparr>),
            [StError (ustr ''Failed to parse JSON response''), StCode (Some [])])"
proof -
  have "spec_braced_substring raw = Some []"
    using assms by (simp add: spec_braced_substring_def Let_def)
  then have "extract_json_from_response json_loads raw = parse_and_validate json_loads []"
    by (simp add: extract_by_specification)
  then show ?thesis
    by (simp add: parse_and_validate_def json_loads_empty)
qed

theorem C10_reversed_braces_witness:
  "extract_json_from_response json_loads (ustr ''} then {'') =
     (Inl (JSONDecodeError \<lparr>msg = ustr ''Expecting value'', doc = [], pos = 0\<rparr>),
      [StError (ustr ''Failed to parse JSON response''), StCode (Some [])])"
proof -
  have 1: "spec_first_index LBRACE (strip (ustr ''} then {'')) = Some 7"
    by (simp add: eval_spec eval_text)
  have 2: "spec_last_index RBRACE (strip (ustr ''} then {'')) = Some 0"
    by (simp add: eval_spec eval_text)
  have 3: "(0::nat) < 7" by simp
  show ?thesis
    using 1 2 3 by (rule C10_reversed_braces_parse_error)
qed

end
